theory Spec2Isabelle
  imports Main
begin

section \<open>Values of dvc/stage/run.py\<close>

text \<open>
  Exceptions that reach the functions of run.py. \<open>OtherException\<close> stands for any
  other class derived from Python's \<open>Exception\<close>; \<open>SystemExiting\<close> stands for a
  \<open>BaseException\<close> that is not an \<open>Exception\<close> (SystemExit, KeyboardInterrupt,
  GeneratorExit). \<open>CheckpointKilledError\<close> is declared in run.py as a subclass of
  \<open>StageCmdFailedError\<close>; both carry the command string and the return code.
  \<open>FileNotFoundError\<close> is what \<open>os.remove\<close> raises on a file that is not there.
\<close>

datatype pyexc =
    AssertionError
  | StageCmdFailedError string int
  | CheckpointKilledError string int
  | RunCacheNotFoundError
  | FileNotFoundError
  | OtherException string
  | SystemExiting string

text \<open>What the clause \<open>except Exception\<close> catches.\<close>

fun is_Exception :: "pyexc \<Rightarrow> bool" where
  "is_Exception (SystemExiting _) = False"
| "is_Exception _ = True"

text \<open>
  The field \<open>stage.cmd\<close>: absent (\<open>None\<close>), a single string, or a list of strings.
\<close>

datatype cmd_field = CmdNone | CmdStr string | CmdList "string list"

text \<open>Python truthiness of that field, as \<open>assert cmd\<close> tests it.\<close>

fun cmd_truthy :: "cmd_field \<Rightarrow> bool" where
  "cmd_truthy CmdNone = False"
| "cmd_truthy (CmdStr s) = (s \<noteq> [])"
| "cmd_truthy (CmdList cs) = (cs \<noteq> [])"

record stage =
  cmd :: cmd_field
  wdir :: string
  is_callback :: bool
  addressing :: string
  root_dir :: string

text \<open>
  What \<open>subprocess.Popen\<close> receives as its first argument: the bare command string
  (run through the platform's shell, \<open>shell=True\<close>) or an argument vector.
\<close>

datatype exec_cmd = ShellString string | Argv "string list"

text \<open>
  The names of the two environment variables come from \<open>dvc.env\<close>, which is not among
  the sources; they are kept as abstract keys.
\<close>

datatype env_key = DVC_CHECKPOINT | DVC_ROOT

record kwargs =
  cwd :: string
  env_update :: "(env_key \<times> string) list"
  close_fds :: bool
  shell :: bool

text \<open>
  A disposition of SIGINT as \<open>signal.signal\<close> returns it: \<open>SIG_DFL\<close> (the enum
  member of integer value 0), \<open>SIG_IGN\<close> (value 1) or a Python callable.
\<close>

datatype handler = SIG_DFL | SIG_IGN | PyHandler string

text \<open>
  Truthiness of the variable \<open>old_handler\<close>, which starts as \<open>None\<close>:
  \<open>None\<close> and the integer enum member of value 0 are false.
\<close>

fun handler_truthy :: "handler option \<Rightarrow> bool" where
  "handler_truthy None = False"
| "handler_truthy (Some SIG_DFL) = False"
| "handler_truthy (Some SIG_IGN) = True"
| "handler_truthy (Some (PyHandler _)) = True"

section \<open>The environment of a run\<close>

text \<open>
  One poll of the monitor thread: whether the child has created the marker file since
  the previous poll; what \<open>_run_callback\<close> does if it is called at this poll
  (\<open>None\<close>: it returns; \<open>Some e\<close>: it raises \<open>e\<close>); what \<open>_kill(proc)\<close> does
  if it is called at this poll (likewise); and whether someone else (the callback, the
  child) deletes the marker file between the test \<open>os.path.exists\<close> and the call of
  \<open>os.remove\<close>.
\<close>

record tick =
  touch :: bool
  cb :: "pyexc option"
  kill_result :: "pyexc option"
  gone :: bool

text \<open>
  A child process that has been launched and exits: the polls that the monitor thread
  makes before \<open>done.wait(1)\<close> returns true (the loop body runs before the first
  wait, hence at least one poll), and the return code that \<open>communicate\<close> leaves in
  \<open>p.returncode\<close>.
\<close>

record proc =
  first_poll :: tick
  later_polls :: "tick list"
  returncode :: int

datatype launch_result = LaunchRaises pyexc | Launched proc

text \<open>
  What the code reads from outside: \<open>os.name\<close>, the variable \<open>SHELL\<close>,
  \<open>os.path.realpath\<close>, whether the current thread is the main thread, the result of
  \<open>stage.repo.stage_cache.restore\<close> (\<open>None\<close>: it returns; \<open>Some e\<close>: it raises
  \<open>e\<close>), and the behaviour of the n-th process launched.
\<close>

record env =
  os_name :: string
  SHELL :: "string option"
  realpath :: "string \<Rightarrow> string"
  main_thread :: bool
  restore :: "stage \<Rightarrow> pyexc option"
  popen :: "nat \<Rightarrow> exec_cmd \<Rightarrow> launch_result"

datatype kill_kind = Terminate | TaskkillTree

datatype event =
    EvLogRunning bool string
  | EvWarnFish
  | EvDisplay string
  | EvRestore
  | EvSpawnFailed exec_cmd
  | EvSpawn exec_cmd kwargs
  | EvSignal handler
  | EvMonitorStart
  | EvPoll bool
  | EvCallback
  | EvLogException
  | EvKill kill_kind
  | EvKilledSet
  | EvRemoveMarker
  | EvCommunicate
  | EvMonitorJoin

text \<open>
  The mutable world: the disposition of SIGINT, the presence of the marker file
  \<open>DVC_CHECKPOINT\<close> in the repository's temporary directory, the number of processes
  launched so far, and the effects so far, oldest first.
\<close>

record world =
  sigint :: handler
  marker :: bool
  spawned :: nat
  trace :: "event list"

definition emit :: "event \<Rightarrow> world \<Rightarrow> world" where
  "emit e w = w\<lparr>trace := trace w @ [e]\<rparr>"

section \<open>Composition of the command\<close>

text \<open>\<open>os.path.basename\<close> of posixpath: what follows the last slash.\<close>

definition basename :: "string \<Rightarrow> string" where
  "basename p = rev (takeWhile (\<lambda>c. c \<noteq> CHR ''/'') (rev p))"

text \<open>\<open>str.lower\<close> on the ASCII letters.\<close>

definition lower_char :: "char \<Rightarrow> char" where
  "lower_char c =
     (case map_of (zip ''ABCDEFGHIJKLMNOPQRSTUVWXYZ'' ''abcdefghijklmnopqrstuvwxyz'') c of
        Some d \<Rightarrow> d
      | None \<Rightarrow> c)"

definition lower :: "string \<Rightarrow> string" where
  "lower s = map lower_char s"

definition opts :: "string \<Rightarrow> string list" where
  "opts name =
     (if name = ''zsh'' then [''--no-rcs'']
      else if name = ''bash'' then [''--noprofile'', ''--norc'']
      else [])"

fun make_cmd :: "string option \<Rightarrow> string \<Rightarrow> exec_cmd" where
  "make_cmd None c = ShellString c"
| "make_cmd (Some executable) c =
     Argv ([executable] @ opts (lower (basename executable)) @ [''-c'', c])"

text \<open>\<open>os.getenv("SHELL") or "/bin/sh"\<close>: an unset and an empty variable both fall back.\<close>

definition get_executable :: "env \<Rightarrow> string option" where
  "get_executable E =
     (if os_name E \<noteq> ''nt''
      then Some (case SHELL E of None \<Rightarrow> ''/bin/sh''
                 | Some s \<Rightarrow> if s = [] then ''/bin/sh'' else s)
      else None)"

definition warn_if_fish :: "env \<Rightarrow> string option \<Rightarrow> world \<Rightarrow> world" where
  "warn_if_fish E executable w =
     (case executable of
        None \<Rightarrow> w
      | Some x \<Rightarrow> if basename (realpath E x) \<noteq> ''fish'' then w else emit EvWarnFish w)"

fun enforce_cmd_list :: "cmd_field \<Rightarrow> pyexc + string list" where
  "enforce_cmd_list CmdNone = Inl AssertionError"
| "enforce_cmd_list (CmdStr s) = (if s = [] then Inl AssertionError else Inr [s])"
| "enforce_cmd_list (CmdList cs) = (if cs = [] then Inl AssertionError else Inr cs)"

definition checkpoint_env :: "stage \<Rightarrow> (env_key \<times> string) list" where
  "checkpoint_env st = [(DVC_CHECKPOINT, ''1''), (DVC_ROOT, root_dir st)]"

definition prepare_kwargs :: "env \<Rightarrow> stage \<Rightarrow> string option \<Rightarrow> kwargs" where
  "prepare_kwargs E st checkpoint_func =
     \<lparr>cwd = wdir st,
      env_update = (if checkpoint_func \<noteq> None then checkpoint_env st else []),
      close_fds = True,
      shell = (os_name E = ''nt'')\<rparr>"

definition display_command :: "string \<Rightarrow> world \<Rightarrow> world" where
  "display_command c w = emit (EvDisplay c) w"

section \<open>The checkpoint monitor\<close>

text \<open>
  \<open>_kill(proc)\<close>: the call, on the process or on its tree. Whether it returns or
  raises is the \<open>kill_result\<close> of the poll.
\<close>

definition kill :: "env \<Rightarrow> world \<Rightarrow> world" where
  "kill E w = (if os_name E = ''nt'' then emit (EvKill TaskkillTree) w
               else emit (EvKill Terminate) w)"

text \<open>
  \<open>os.remove(signal_path)\<close>: the call deletes the marker file, or raises
  \<open>FileNotFoundError\<close> when the file is not there. The file system of the model knows
  the presence of the file only, not permissions.
\<close>

definition os_remove :: "world \<Rightarrow> world \<times> pyexc option" where
  "os_remove w =
     (let w1 = emit EvRemoveMarker w in
      if marker w1 then (w1\<lparr>marker := False\<rparr>, None) else (w1, Some FileNotFoundError))"

text \<open>
  The body of the \<open>while True\<close> loop of \<open>_checkpoint_run\<close> up to \<open>done.wait(1)\<close>.
  It returns the world, the \<open>killed\<close> event and the exception that leaves the body,
  if any. The \<open>except Exception\<close> handler logs, calls \<open>_kill\<close> and sets
  \<open>killed\<close>; an exception of \<open>_kill\<close> leaves the handler before \<open>killed.set()\<close>.
  The \<open>finally\<close> clause runs on every path of the \<open>try\<close>; an exception of
  \<open>os.remove\<close> there replaces the pending one.
\<close>

definition poll :: "env \<Rightarrow> tick \<Rightarrow> world \<Rightarrow> bool \<Rightarrow> world \<times> bool \<times> pyexc option" where
  "poll E t w killed =
     (let w0 = w\<lparr>marker := marker w \<or> touch t\<rparr>;
          w1 = emit (EvPoll (marker w0)) w0
      in if marker w1 then
           (let w2 = emit EvCallback w1;
                (w3, killed', pending) =
                  (case cb t of
                     None \<Rightarrow> (w2, killed, None)
                   | Some e \<Rightarrow>
                       if is_Exception e then
                         (let w2a = kill E (emit EvLogException w2) in
                          case kill_result t of
                            None \<Rightarrow> (emit EvKilledSet w2a, True, None)
                          | Some e' \<Rightarrow> (w2a, killed, Some e'))
                       else (w2, killed, Some e));
                (w4, removal) = os_remove (w3\<lparr>marker := marker w3 \<and> \<not> gone t\<rparr>)
            in (w4, killed', (case removal of None \<Rightarrow> pending | Some e'' \<Rightarrow> Some e'')))
         else (w1, killed, None))"

text \<open>
  The loop of \<open>_checkpoint_run\<close>: the list of later polls ends where \<open>done.wait(1)\<close>
  first returns true. An exception that leaves the body ends the thread.
\<close>

fun checkpoint_run ::
  "env \<Rightarrow> tick \<Rightarrow> tick list \<Rightarrow> world \<Rightarrow> bool \<Rightarrow> world \<times> bool \<times> pyexc option" where
  "checkpoint_run E t [] w killed = poll E t w killed"
| "checkpoint_run E t (t' # ts) w killed =
     (case poll E t w killed of
        (w', killed', Some e) \<Rightarrow> (w', killed', Some e)
      | (w', killed', None) \<Rightarrow> checkpoint_run E t' ts w' killed')"

text \<open>
  \<open>checkpoint_monitor\<close> around \<open>p.communicate()\<close>. Without a callback nothing is
  started. An exception of the monitor thread stays in that thread, so only the world
  and the \<open>killed\<close> event come back to \<open>_run\<close>.
\<close>

definition checkpoint_monitor ::
  "env \<Rightarrow> string option \<Rightarrow> proc \<Rightarrow> world \<Rightarrow> world \<times> bool" where
  "checkpoint_monitor E callback_func p w =
     (case callback_func of
        None \<Rightarrow> (emit EvCommunicate w, False)
      | Some _ \<Rightarrow>
          (case checkpoint_run E (first_poll p) (later_polls p) (emit EvMonitorStart w) False of
             (w', killed, _) \<Rightarrow> (emit EvMonitorJoin (emit EvCommunicate w'), killed)))"

section \<open>Running a stage\<close>

text \<open>
  Lines 106 to 110 of \<open>_run\<close>: from the return code and the event to the result.
  A \<open>Popen\<close> object is truthy and \<open>communicate\<close> has set its return code, so
  \<open>retcode\<close> is that integer.
\<close>

definition evaluate_outcome :: "string \<Rightarrow> bool \<Rightarrow> int \<Rightarrow> pyexc + unit" where
  "evaluate_outcome c killed retcode =
     (if retcode \<noteq> 0 then
        (if killed then Inl (CheckpointKilledError c retcode)
         else Inl (StageCmdFailedError c retcode))
      else Inr ())"

text \<open>
  \<open>_run\<close>. When \<open>Popen\<close> raises, \<open>old_handler\<close> is still \<open>None\<close> and the
  exception leaves through the \<open>finally\<close> clause.
\<close>

definition run ::
  "env \<Rightarrow> stage \<Rightarrow> string option \<Rightarrow> string \<Rightarrow> string option \<Rightarrow> kwargs \<Rightarrow> world
     \<Rightarrow> world \<times> (pyexc + unit)" where
  "run E st executable c checkpoint_func kw w =
     (let exec_cmd = make_cmd executable c in
      case popen E (spawned w) exec_cmd of
        LaunchRaises e \<Rightarrow> (emit (EvSpawnFailed exec_cmd) w, Inl e)
      | Launched p \<Rightarrow>
          (let w1 = emit (EvSpawn exec_cmd kw) (w\<lparr>spawned := Suc (spawned w)\<rparr>);
               old_handler = (if main_thread E then Some (sigint w1) else None);
               w2 = (if main_thread E then (emit (EvSignal SIG_IGN) w1)\<lparr>sigint := SIG_IGN\<rparr>
                     else w1);
               (w3, killed) = checkpoint_monitor E checkpoint_func p w2;
               w4 = (if handler_truthy old_handler
                     then (emit (EvSignal (the old_handler)) w3)\<lparr>sigint := the old_handler\<rparr>
                     else w3)
           in (w4, evaluate_outcome c killed (returncode p))))"

text \<open>The \<open>for\<close> loop of \<open>cmd_run\<close>.\<close>

fun cmd_run_loop ::
  "env \<Rightarrow> stage \<Rightarrow> bool \<Rightarrow> string option \<Rightarrow> string option \<Rightarrow> kwargs \<Rightarrow> string list
     \<Rightarrow> world \<Rightarrow> world \<times> (pyexc + unit)" where
  "cmd_run_loop E st dry checkpoint_func executable kw [] w = (w, Inr ())"
| "cmd_run_loop E st dry checkpoint_func executable kw (c # cs) w =
     (let w1 = display_command c w in
      if dry then cmd_run_loop E st dry checkpoint_func executable kw cs w1
      else (case run E st executable c checkpoint_func kw w1 of
              (w2, Inl e) \<Rightarrow> (w2, Inl e)
            | (w2, Inr _) \<Rightarrow> cmd_run_loop E st dry checkpoint_func executable kw cs w2))"

definition cmd_run ::
  "env \<Rightarrow> stage \<Rightarrow> bool \<Rightarrow> string option \<Rightarrow> world \<Rightarrow> world \<times> (pyexc + unit)" where
  "cmd_run E st dry checkpoint_func w =
     (let w0 = emit (EvLogRunning (is_callback st) (addressing st)) w in
      case enforce_cmd_list (cmd st) of
        Inl e \<Rightarrow> (w0, Inl e)
      | Inr commands \<Rightarrow>
          (let kw = prepare_kwargs E st checkpoint_func;
               executable = get_executable E;
               w1 = (if \<not> dry then warn_if_fish E executable w0 else w0)
           in cmd_run_loop E st dry checkpoint_func executable kw commands w1))"

text \<open>
  \<open>run_stage\<close>. The decorator \<open>unlocked_repo\<close> (of \<open>decorators.py\<close>, not among the
  sources) releases the repository lock around \<open>cmd_run\<close>; the lock is not part of
  the world here, so both branches of line 144 call \<open>cmd_run\<close>.
\<close>

definition run_stage ::
  "env \<Rightarrow> stage \<Rightarrow> bool \<Rightarrow> bool \<Rightarrow> string option \<Rightarrow> world \<Rightarrow> world \<times> (pyexc + unit)" where
  "run_stage E st dry force checkpoint_func w =
     (if \<not> (dry \<or> force \<or> checkpoint_func \<noteq> None) then
        (let w1 = emit EvRestore w in
         case restore E st of
           None \<Rightarrow> (w1, Inr ())
         | Some e \<Rightarrow>
             if e = RunCacheNotFoundError then cmd_run E st dry checkpoint_func w1
             else (w1, Inl e))
      else cmd_run E st dry checkpoint_func w)"

section \<open>Observations on the trace\<close>

text \<open>The effects that a computation from \<open>w\<close> to \<open>w'\<close> has added.\<close>

definition events_since :: "world \<Rightarrow> world \<Rightarrow> event list" where
  "events_since w w' = drop (length (trace w)) (trace w')"

text \<open>The effects of the monitor thread.\<close>

fun monitor_event :: "event \<Rightarrow> bool" where
  "monitor_event (EvPoll _) = True"
| "monitor_event EvCallback = True"
| "monitor_event EvLogException = True"
| "monitor_event (EvKill _) = True"
| "monitor_event EvKilledSet = True"
| "monitor_event EvRemoveMarker = True"
| "monitor_event _ = False"

text \<open>The effects of \<open>_run\<close> after a successful launch, the launch itself apart.\<close>

fun wait_event :: "event \<Rightarrow> bool" where
  "wait_event (EvSignal _) = True"
| "wait_event EvMonitorStart = True"
| "wait_event EvCommunicate = True"
| "wait_event EvMonitorJoin = True"
| "wait_event e = monitor_event e"

text \<open>The effects of \<open>cmd_run\<close>: every effect but the consultation of the run cache.\<close>

fun cmd_run_event :: "event \<Rightarrow> bool" where
  "cmd_run_event EvRestore = False"
| "cmd_run_event _ = True"

fun is_poll :: "event \<Rightarrow> bool" where
  "is_poll (EvPoll _) = True"
| "is_poll _ = False"

text \<open>The commands of the processes launched, in the order of their launch.\<close>

fun spawn_cmds :: "event list \<Rightarrow> exec_cmd list" where
  "spawn_cmds [] = []"
| "spawn_cmds (EvSpawn x _ # evs) = x # spawn_cmds evs"
| "spawn_cmds (_ # evs) = spawn_cmds evs"


section \<open>Example scenarios\<close>

definition quiet_tick :: tick where
  "quiet_tick = \<lparr>touch = False, cb = None, kill_result = None, gone = False\<rparr>"

definition request_tick :: "pyexc option \<Rightarrow> tick" where
  "request_tick r = \<lparr>touch = True, cb = r, kill_result = None, gone = False\<rparr>"

definition exiting_proc :: "int \<Rightarrow> proc" where
  "exiting_proc rc = \<lparr>first_poll = quiet_tick, later_polls = [], returncode = rc\<rparr>"

definition checkpoint_proc :: "pyexc option \<Rightarrow> int \<Rightarrow> proc" where
  "checkpoint_proc r rc =
     \<lparr>first_poll = request_tick r, later_polls = [quiet_tick], returncode = rc\<rparr>"

text \<open>
  A POSIX host with bash as the shell, the main thread, a run cache that misses, and
  processes of which the second one launched exits with code 3.
\<close>

definition example_env :: env where
  "example_env =
     \<lparr>os_name = ''posix'', SHELL = Some ''/bin/bash'', realpath = (\<lambda>p. p),
      main_thread = True, restore = (\<lambda>_. Some RunCacheNotFoundError),
      popen = (\<lambda>n _. Launched (exiting_proc (if n = 1 then 3 else 0)))\<rparr>"

text \<open>The same host when the checkpoint callback raises and the child exits with \<open>rc\<close>.\<close>

definition checkpoint_env_of :: "pyexc \<Rightarrow> int \<Rightarrow> env" where
  "checkpoint_env_of e rc =
     example_env\<lparr>popen := (\<lambda>_ _. Launched (checkpoint_proc (Some e) rc))\<rparr>"

definition example_stage :: stage where
  "example_stage =
     \<lparr>cmd = CmdList [''echo A'', ''exit 3'', ''echo B''], wdir = ''.'', is_callback = False,
      addressing = ''train'', root_dir = ''/repo''\<rparr>"

definition example_world :: world where
  "example_world =
     \<lparr>sigint = PyHandler ''default_int_handler'', marker = False, spawned = 0, trace = []\<rparr>"

section \<open>Effects of the monitor on the world\<close>

lemma trace_emit: "trace (emit e w) = trace w @ [e]"
  by (simp add: emit_def)

lemma emit_frame:
  "sigint (emit e w) = sigint w" "marker (emit e w) = marker w" "spawned (emit e w) = spawned w"
  by (simp_all add: emit_def)

lemma kill_frame:
  "sigint (kill E w) = sigint w" "marker (kill E w) = marker w" "spawned (kill E w) = spawned w"
  by (simp_all add: kill_def emit_frame)

lemma events_since_append: "trace w' = trace w @ evs \<Longrightarrow> events_since w w' = evs"
  by (simp add: events_since_def)

lemma spawn_cmds_append: "spawn_cmds (xs @ ys) = spawn_cmds xs @ spawn_cmds ys"
  by (induction xs rule: spawn_cmds.induct) simp_all

lemma spawn_cmds_wait: "list_all wait_event evs \<Longrightarrow> spawn_cmds evs = []"
  by (induction evs rule: spawn_cmds.induct) simp_all


lemma os_remove_frame:
  "sigint (fst (os_remove w)) = sigint w" "spawned (fst (os_remove w)) = spawned w"
  "trace (fst (os_remove w)) = trace w @ [EvRemoveMarker]"
  by (simp_all add: os_remove_def Let_def emit_def)


lemma poll_frame:
  "sigint (fst (poll E t w k)) = sigint w" "spawned (fst (poll E t w k)) = spawned w"
  by (auto simp: poll_def Let_def split_beta os_remove_frame emit_frame kill_frame
      split: option.splits)

lemma poll_trace:
  "\<exists>evs. trace (fst (poll E t w k)) = trace w @ evs \<and> list_all monitor_event evs
      \<and> fst (snd (poll E t w k)) = (k \<or> EvKilledSet \<in> set evs)
      \<and> length (filter is_poll evs) = 1"
  by (auto simp: poll_def Let_def split_beta os_remove_frame emit_frame trace_emit kill_def
      split: option.splits)


lemma checkpoint_run_frame:
  "sigint (fst (checkpoint_run E t ts w k)) = sigint w \<and>
   spawned (fst (checkpoint_run E t ts w k)) = spawned w"
proof (induction ts arbitrary: t w k)
  case Nil
  show ?case by (simp add: poll_frame)
next
  case (Cons t' ts)
  obtain w' k' x where p: "poll E t w k = (w', k', x)" by (cases "poll E t w k")
  have "sigint w' = sigint w \<and> spawned w' = spawned w"
    using poll_frame [of E t w k] p by simp
  then show ?case using Cons [of t' w' k'] p by (cases x) simp_all
qed

lemma checkpoint_run_trace:
  "\<exists>evs. trace (fst (checkpoint_run E t ts w k)) = trace w @ evs \<and> list_all monitor_event evs
      \<and> fst (snd (checkpoint_run E t ts w k)) = (k \<or> EvKilledSet \<in> set evs)"
proof (induction ts arbitrary: t w k)
  case Nil
  show ?case using poll_trace [of E t w k] by auto
next
  case (Cons t' ts)
  obtain w' k' x where p: "poll E t w k = (w', k', x)" by (cases "poll E t w k")
  obtain evs where e: "trace w' = trace w @ evs" "list_all monitor_event evs"
      "k' = (k \<or> EvKilledSet \<in> set evs)"
    using poll_trace [of E t w k] p by auto
  show ?case
  proof (cases x)
    case (Some a)
    then show ?thesis using p e by auto
  next
    case None
    obtain evs' where e': "trace (fst (checkpoint_run E t' ts w' k')) = trace w' @ evs'"
        "list_all monitor_event evs'"
        "fst (snd (checkpoint_run E t' ts w' k')) = (k' \<or> EvKilledSet \<in> set evs')"
      using Cons [of t' w' k'] by auto
    have "trace (fst (checkpoint_run E t (t' # ts) w k)) = trace w @ (evs @ evs')"
      using None p e e' by simp
    moreover have "list_all monitor_event (evs @ evs')" using e e' by simp
    moreover have "fst (snd (checkpoint_run E t (t' # ts) w k))
        = (k \<or> EvKilledSet \<in> set (evs @ evs'))"
      using None p e e' by auto
    ultimately show ?thesis by blast
  qed
qed

lemma monitor_wait: "list_all monitor_event evs \<Longrightarrow> list_all wait_event evs"
  by (induction evs) (auto elim: monitor_event.elims)

lemma checkpoint_monitor_frame:
  "sigint (fst (checkpoint_monitor E f p w)) = sigint w \<and>
   spawned (fst (checkpoint_monitor E f p w)) = spawned w"
proof (cases f)
  case None
  then show ?thesis by (simp add: checkpoint_monitor_def emit_frame)
next
  case (Some a)
  then show ?thesis
    using checkpoint_run_frame [of E "first_poll p" "later_polls p" "emit EvMonitorStart w" False]
    by (simp add: checkpoint_monitor_def emit_frame split_beta)
qed

lemma checkpoint_monitor_trace:
  "\<exists>evs. trace (fst (checkpoint_monitor E f p w)) = trace w @ evs \<and> list_all wait_event evs
      \<and> snd (checkpoint_monitor E f p w) = (EvKilledSet \<in> set evs)"
proof (cases f)
  case None
  then show ?thesis by (simp add: checkpoint_monitor_def trace_emit)
next
  case (Some a)
  obtain evs where e:
      "trace (fst (checkpoint_run E (first_poll p) (later_polls p) (emit EvMonitorStart w) False))
         = trace (emit EvMonitorStart w) @ evs"
      "list_all monitor_event evs"
      "fst (snd (checkpoint_run E (first_poll p) (later_polls p) (emit EvMonitorStart w) False))
         = (False \<or> EvKilledSet \<in> set evs)"
    using checkpoint_run_trace [of E "first_poll p" "later_polls p" "emit EvMonitorStart w" False]
    by auto
  have "trace (fst (checkpoint_monitor E f p w))
      = trace w @ (EvMonitorStart # evs @ [EvCommunicate, EvMonitorJoin])"
    using Some e by (simp add: checkpoint_monitor_def trace_emit split_beta)
  moreover have "list_all wait_event (EvMonitorStart # evs @ [EvCommunicate, EvMonitorJoin])"
    using e monitor_wait by simp
  moreover have "snd (checkpoint_monitor E f p w)
      = (EvKilledSet \<in> set (EvMonitorStart # evs @ [EvCommunicate, EvMonitorJoin]))"
    using Some e by (simp add: checkpoint_monitor_def split_beta)
  ultimately show ?thesis by blast
qed

section \<open>Effects of one run attempt\<close>

lemma run_raises:
  "popen E (spawned w) (make_cmd exe c) = LaunchRaises e \<Longrightarrow>
     run E st exe c f kw w = (emit (EvSpawnFailed (make_cmd exe c)) w, Inl e)"
  by (simp add: run_def)

lemma run_launched:
  assumes "popen E (spawned w) (make_cmd exe c) = Launched p"
  shows "\<exists>evs. trace (fst (run E st exe c f kw w)) = trace w @ EvSpawn (make_cmd exe c) kw # evs
           \<and> list_all wait_event evs
           \<and> snd (run E st exe c f kw w) = evaluate_outcome c (EvKilledSet \<in> set evs) (returncode p)
           \<and> spawned (fst (run E st exe c f kw w)) = Suc (spawned w)"
proof -
  define w1 where "w1 = emit (EvSpawn (make_cmd exe c) kw) (w\<lparr>spawned := Suc (spawned w)\<rparr>)"
  define w2 where "w2 = (if main_thread E then (emit (EvSignal SIG_IGN) w1)\<lparr>sigint := SIG_IGN\<rparr> else w1)"
  define pre where "pre = (if main_thread E then [EvSignal SIG_IGN] else [])"
  define old where "old = (if main_thread E then Some (sigint w1) else None)"
  define post where "post = (if handler_truthy old then [EvSignal (the old)] else [])"
  have t1: "trace w1 = trace w @ [EvSpawn (make_cmd exe c) kw]"
    by (simp add: w1_def trace_emit)
  have t2: "trace w2 = trace w1 @ pre" by (simp add: w2_def pre_def trace_emit)
  have s2: "spawned w2 = Suc (spawned w)" by (simp add: w2_def w1_def emit_frame)
  obtain evs where e: "trace (fst (checkpoint_monitor E f p w2)) = trace w2 @ evs"
      "list_all wait_event evs" "snd (checkpoint_monitor E f p w2) = (EvKilledSet \<in> set evs)"
    using checkpoint_monitor_trace [of E f p w2] by auto
  have s3: "spawned (fst (checkpoint_monitor E f p w2)) = Suc (spawned w)"
    using checkpoint_monitor_frame [of E f p w2] s2 by simp
  have r: "run E st exe c f kw w =
      ((if handler_truthy old
        then (emit (EvSignal (the old)) (fst (checkpoint_monitor E f p w2)))\<lparr>sigint := the old\<rparr>
        else fst (checkpoint_monitor E f p w2)),
       evaluate_outcome c (snd (checkpoint_monitor E f p w2)) (returncode p))"
    using assms by (simp add: run_def Let_def split_beta w1_def w2_def old_def)
  have tr: "trace (fst (run E st exe c f kw w))
      = trace w @ EvSpawn (make_cmd exe c) kw # (pre @ evs @ post)"
    using r e t1 t2 by (simp add: post_def trace_emit)
  have wa: "list_all wait_event (pre @ evs @ post)"
    using e by (simp add: pre_def post_def)
  have ks: "(EvKilledSet \<in> set (pre @ evs @ post)) = (EvKilledSet \<in> set evs)"
    by (simp add: pre_def post_def)
  have oc: "snd (run E st exe c f kw w)
      = evaluate_outcome c (EvKilledSet \<in> set (pre @ evs @ post)) (returncode p)"
    using r e ks by simp
  have sp: "spawned (fst (run E st exe c f kw w)) = Suc (spawned w)"
    using r s3 by (simp add: emit_frame)
  show ?thesis using tr wa oc sp by blast
qed

section \<open>C1: the outcome of a run attempt\<close>

text \<open>
  C1, as amended. When the child has been launched, the outcome of \<open>_run\<close> is decided
  by the return code first: a non-zero code gives \<open>CheckpointKilledError\<close> with that
  code when the monitor has set \<open>killed\<close> during this attempt and
  \<open>StageCmdFailedError\<close> with that code otherwise; the code zero gives a normal return
  whether or not \<open>killed\<close> was set. So a killed attempt never ends in a plain
  \<open>StageCmdFailedError\<close>.
\<close>

theorem run_outcome_by_return_code:
  assumes "popen E (spawned w) (make_cmd exe c) = Launched p"
  shows "snd (run E st exe c f kw w) =
    (if returncode p \<noteq> 0 then
       (if EvKilledSet \<in> set (events_since w (fst (run E st exe c f kw w)))
        then Inl (CheckpointKilledError c (returncode p))
        else Inl (StageCmdFailedError c (returncode p)))
     else Inr ())"
proof -
  obtain evs where e:
      "trace (fst (run E st exe c f kw w)) = trace w @ EvSpawn (make_cmd exe c) kw # evs"
      "snd (run E st exe c f kw w) = evaluate_outcome c (EvKilledSet \<in> set evs) (returncode p)"
    using run_launched [OF assms, of st f kw] by auto
  have "events_since w (fst (run E st exe c f kw w)) = EvSpawn (make_cmd exe c) kw # evs"
    using e(1) by (rule events_since_append)
  then show ?thesis using e(2) by (simp add: evaluate_outcome_def)
qed

text \<open>Unfolding the example scenarios and the functions of a run.\<close>

lemmas ex_defs = example_env_def checkpoint_env_of_def example_stage_def example_world_def
  checkpoint_proc_def exiting_proc_def quiet_tick_def request_tick_def
lemmas run_defs = run_def Let_def checkpoint_monitor_def poll_def os_remove_def emit_def kill_def
  evaluate_outcome_def events_since_def lower_def basename_def lower_char_def opts_def

text \<open>
  C1 as stated fails: the callback raises at the first poll, the monitor terminates the
  child and sets \<open>killed\<close>, the child's return code is 0 (it had already exited, or
  it handles the termination signal), and \<open>_run\<close> returns normally.
\<close>

theorem killed_with_return_code_zero:
  "EvKilledSet \<in> set (events_since example_world
       (fst (run (checkpoint_env_of (OtherException ''commit failed'') 0) example_stage
              (Some ''/bin/sh'') ''train.py'' (Some ''checkpoint'')
              (prepare_kwargs (checkpoint_env_of (OtherException ''commit failed'') 0) example_stage (Some ''checkpoint''))
              example_world)))
   \<and> snd (run (checkpoint_env_of (OtherException ''commit failed'') 0) example_stage
              (Some ''/bin/sh'') ''train.py'' (Some ''checkpoint'')
              (prepare_kwargs (checkpoint_env_of (OtherException ''commit failed'') 0) example_stage (Some ''checkpoint''))
              example_world) = Inr ()"
  by (simp add: ex_defs run_defs prepare_kwargs_def checkpoint_env_def)

theorem run_outcome_by_return_code_witness:
  "popen (checkpoint_env_of (OtherException ''commit failed'') (-15)) (spawned example_world)
       (make_cmd (Some ''/bin/sh'') ''train.py'')
     = Launched (checkpoint_proc (Some (OtherException ''commit failed'')) (-15))
   \<and> snd (run (checkpoint_env_of (OtherException ''commit failed'') (-15)) example_stage
              (Some ''/bin/sh'') ''train.py'' (Some ''checkpoint'')
              (prepare_kwargs (checkpoint_env_of (OtherException ''commit failed'') (-15))
                 example_stage (Some ''checkpoint''))
              example_world) = Inl (CheckpointKilledError ''train.py'' (-15))"
proof -
  have h: "popen (checkpoint_env_of (OtherException ''commit failed'') (-15))
       (spawned example_world) (make_cmd (Some ''/bin/sh'') ''train.py'')
     = Launched (checkpoint_proc (Some (OtherException ''commit failed'')) (-15))"
    by (simp add: ex_defs)
  show ?thesis
    using h run_outcome_by_return_code [OF h, of example_stage "Some ''checkpoint''"
      "prepare_kwargs (checkpoint_env_of (OtherException ''commit failed'') (-15))
         example_stage (Some ''checkpoint'')"]
    by (simp add: ex_defs run_defs)
qed

section \<open>C3 and C4: the marker file and the callback\<close>















section \<open>The loop over the commands\<close>

lemma wait_event_cmd_run: "wait_event e \<Longrightarrow> cmd_run_event e"
  by (cases e) simp_all

lemma wait_cmd_run_event: "list_all wait_event evs \<Longrightarrow> list_all cmd_run_event evs"
  by (induction evs) (simp_all add: wait_event_cmd_run)

lemma run_trace:
  "\<exists>evs. trace (fst (run E st exe c f kw w)) = trace w @ evs \<and> list_all cmd_run_event evs"
proof (cases "popen E (spawned w) (make_cmd exe c)")
  case (LaunchRaises e)
  then show ?thesis using run_raises [OF LaunchRaises, of st f kw] by (simp add: trace_emit)
next
  case (Launched p)
  obtain evs where e:
      "trace (fst (run E st exe c f kw w)) = trace w @ EvSpawn (make_cmd exe c) kw # evs"
      "list_all wait_event evs"
    using run_launched [OF Launched, of st f kw] by blast
  have "list_all cmd_run_event (EvSpawn (make_cmd exe c) kw # evs)"
    using e(2) wait_cmd_run_event by simp
  then show ?thesis using e(1) by blast
qed

lemma cmd_run_loop_trace:
  "\<exists>evs. trace (fst (cmd_run_loop E st dry f exe kw cs w)) = trace w @ evs
      \<and> list_all cmd_run_event evs"
proof (induction cs arbitrary: w)
  case Nil
  show ?case by simp
next
  case (Cons c cs)
  define w1 where "w1 = display_command c w"
  have t1: "trace w1 = trace w @ [EvDisplay c]"
    by (simp add: w1_def display_command_def trace_emit)
  show ?case
  proof (cases dry)
    case True
    obtain evs where "trace (fst (cmd_run_loop E st dry f exe kw cs w1)) = trace w1 @ evs"
        "list_all cmd_run_event evs"
      using Cons [of w1] by blast
    then have "trace (fst (cmd_run_loop E st dry f exe kw (c # cs) w)) = trace w @ (EvDisplay c # evs)
        \<and> list_all cmd_run_event (EvDisplay c # evs)"
      using True t1 by (simp add: w1_def Let_def)
    then show ?thesis by blast
  next
    case False
    obtain w2 r where r: "run E st exe c f kw w1 = (w2, r)" by (cases "run E st exe c f kw w1")
    obtain evs where e: "trace w2 = trace w1 @ evs" "list_all cmd_run_event evs"
      using run_trace [of E st exe c f kw w1] r by auto
    show ?thesis
    proof (cases r)
      case (Inl x)
      then have "trace (fst (cmd_run_loop E st dry f exe kw (c # cs) w)) = trace w @ (EvDisplay c # evs)
          \<and> list_all cmd_run_event (EvDisplay c # evs)"
        using False r e t1 by (simp add: w1_def [symmetric] Let_def)
      then show ?thesis by blast
    next
      case (Inr u)
      obtain evs' where e': "trace (fst (cmd_run_loop E st dry f exe kw cs w2)) = trace w2 @ evs'"
          "list_all cmd_run_event evs'"
        using Cons [of w2] by blast
      have "trace (fst (cmd_run_loop E st dry f exe kw (c # cs) w))
            = trace w @ (EvDisplay c # evs @ evs')
          \<and> list_all cmd_run_event (EvDisplay c # evs @ evs')"
        using False r e e' t1 Inr by (simp add: w1_def [symmetric] Let_def)
      then show ?thesis by blast
    qed
  qed
qed

lemma warn_if_fish_trace:
  "\<exists>evs. trace (warn_if_fish E x w) = trace w @ evs \<and> list_all cmd_run_event evs"
  by (auto simp: warn_if_fish_def trace_emit split: option.splits)

lemma cmd_run_trace:
  "\<exists>evs. trace (fst (cmd_run E st dry f w)) = trace w @ evs \<and> list_all cmd_run_event evs"
proof (cases "enforce_cmd_list (cmd st)")
  case (Inl e)
  then show ?thesis by (simp add: cmd_run_def trace_emit)
next
  case (Inr cs)
  define w0 where "w0 = emit (EvLogRunning (is_callback st) (addressing st)) w"
  define w1 where "w1 = (if \<not> dry then warn_if_fish E (get_executable E) w0 else w0)"
  obtain a where a: "trace w1 = trace w0 @ a" "list_all cmd_run_event a"
    using warn_if_fish_trace [of E "get_executable E" w0] by (cases dry) (auto simp: w1_def)
  obtain b where b: "trace (fst (cmd_run_loop E st dry f (get_executable E)
        (prepare_kwargs E st f) cs w1)) = trace w1 @ b" "list_all cmd_run_event b"
    using cmd_run_loop_trace by blast
  have r: "cmd_run E st dry f w
      = cmd_run_loop E st dry f (get_executable E) (prepare_kwargs E st f) cs w1"
    using Inr by (simp add: cmd_run_def Let_def w1_def w0_def)
  have t0: "trace w0 = trace w @ [EvLogRunning (is_callback st) (addressing st)]"
    by (simp add: w0_def trace_emit)
  have "trace (fst (cmd_run E st dry f w))
        = trace w @ (EvLogRunning (is_callback st) (addressing st) # a @ b)"
    using r a(1) b(1) t0 by simp
  moreover have "list_all cmd_run_event (EvLogRunning (is_callback st) (addressing st) # a @ b)"
    using a(2) b(2) by simp
  ultimately show ?thesis by blast
qed

lemma cmd_run_loop_dry:
  "cmd_run_loop E st True f exe kw cs w = (w\<lparr>trace := trace w @ map EvDisplay cs\<rparr>, Inr ())"
  by (induction cs arbitrary: w) (simp_all add: display_command_def emit_def)

lemma enforce_cmd_list_truthy:
  "cmd_truthy x \<Longrightarrow> \<exists>cs. enforce_cmd_list x = Inr cs \<and> cs \<noteq> []"
  by (cases x) simp_all

lemma enforce_cmd_list_falsy:
  "\<not> cmd_truthy x \<Longrightarrow> enforce_cmd_list x = Inl AssertionError"
  by (cases x) simp_all

lemma cmd_run_dry:
  "enforce_cmd_list (cmd st) = Inr cs \<Longrightarrow>
     cmd_run E st True f w =
       (w\<lparr>trace := trace w @ EvLogRunning (is_callback st) (addressing st) # map EvDisplay cs\<rparr>,
        Inr ())"
  by (simp add: cmd_run_def cmd_run_loop_dry emit_def)

section \<open>C2 and C7: the run cache\<close>

text \<open>
  C2. \<open>run_stage\<close> consults the run cache exactly when the run is not dry, not forced
  and has no checkpoint callback. When the cache then restores the stage, \<open>run_stage\<close>
  returns at once: the consultation is its only effect, so no command is composed or
  displayed, no process is launched and no monitor is started.
\<close>

theorem restore_consulted_iff:
  "(EvRestore \<in> set (events_since w (fst (run_stage E st dry force f w))))
      = (\<not> dry \<and> \<not> force \<and> f = None)
   \<and> (\<not> dry \<and> \<not> force \<and> f = None \<and> restore E st = None \<longrightarrow>
        run_stage E st dry force f w = (emit EvRestore w, Inr ()))"
proof (cases "\<not> dry \<and> \<not> force \<and> f = None")
  case False
  obtain evs where e: "trace (fst (cmd_run E st dry f w)) = trace w @ evs"
      "list_all cmd_run_event evs"
    using cmd_run_trace by blast
  have "events_since w (fst (cmd_run E st dry f w)) = evs"
    using e(1) by (rule events_since_append)
  moreover have "EvRestore \<notin> set evs" using e(2) by (auto simp: list_all_iff)
  moreover have "run_stage E st dry force f w = cmd_run E st dry f w"
    using False by (auto simp: run_stage_def)
  ultimately show ?thesis using False by auto
next
  case True
  obtain evs where e: "trace (fst (cmd_run E st dry f (emit EvRestore w)))
      = trace (emit EvRestore w) @ evs"
    using cmd_run_trace by blast
  have "\<exists>evs'. trace (fst (run_stage E st dry force f w)) = trace w @ EvRestore # evs'"
    using True e by (auto simp: run_stage_def Let_def trace_emit split: option.splits)
  then obtain evs' where "trace (fst (run_stage E st dry force f w)) = trace w @ EvRestore # evs'"
    by blast
  then have "events_since w (fst (run_stage E st dry force f w)) = EvRestore # evs'"
    by (rule events_since_append)
  moreover have "restore E st = None \<longrightarrow> run_stage E st dry force f w = (emit EvRestore w, Inr ())"
    using True by (simp add: run_stage_def Let_def)
  ultimately show ?thesis using True by simp
qed

theorem restore_consulted_iff_witness:
  "EvRestore \<in> set (events_since example_world
       (fst (run_stage (example_env\<lparr>restore := (\<lambda>_. None)\<rparr>) example_stage False False None
              example_world)))
   \<and> restore (example_env\<lparr>restore := (\<lambda>_. None)\<rparr>) example_stage = None
   \<and> run_stage (example_env\<lparr>restore := (\<lambda>_. None)\<rparr>) example_stage False False None example_world
       = (example_world\<lparr>trace := [EvRestore]\<rparr>, Inr ())"
  using restore_consulted_iff [of example_world "example_env\<lparr>restore := (\<lambda>_. None)\<rparr>"
      example_stage False False None]
  by (simp add: ex_defs emit_def events_since_def)

text \<open>
  C7. When the run cache is consulted and \<open>restore\<close> raises, only
  \<open>RunCacheNotFoundError\<close> lets the run proceed to \<open>cmd_run\<close>; any other exception
  is the result of \<open>run_stage\<close>, unchanged, and nothing is done after the consultation.
\<close>

theorem only_not_found_proceeds:
  assumes "\<not> dry" "\<not> force" "f = None" "restore E st = Some e"
  shows "run_stage E st dry force f w =
    (if e = RunCacheNotFoundError then cmd_run E st False None (emit EvRestore w)
     else (emit EvRestore w, Inl e))"
  using assms by (simp add: run_stage_def Let_def)

theorem only_not_found_proceeds_witness:
  "restore (example_env\<lparr>restore := (\<lambda>_. Some (OtherException ''corrupted cache''))\<rparr>) example_stage
     = Some (OtherException ''corrupted cache'')
   \<and> run_stage (example_env\<lparr>restore := (\<lambda>_. Some (OtherException ''corrupted cache''))\<rparr>)
        example_stage False False None example_world
       = (example_world\<lparr>trace := [EvRestore]\<rparr>, Inl (OtherException ''corrupted cache''))"
proof -
  have h: "restore (example_env\<lparr>restore := (\<lambda>_. Some (OtherException ''corrupted cache''))\<rparr>)
      example_stage = Some (OtherException ''corrupted cache'')"
    by (simp add: ex_defs)
  have d: "\<not> False" by simp
  show ?thesis
    using h only_not_found_proceeds [OF d d refl h, of example_world]
    by (simp add: ex_defs emit_def)
qed

section \<open>C9 and C10: dry runs and the command field\<close>

text \<open>
  C9, as amended. For every stage whose command field is not empty, a dry run only
  logs the stage and displays the command strings: it launches no process, does not
  consult the run cache, starts no monitor, leaves the rest of the world as it was, and
  returns normally.
\<close>

theorem dry_run_only_displays:
  assumes "cmd_truthy (cmd st)"
  shows "\<exists>cs. enforce_cmd_list (cmd st) = Inr cs
    \<and> run_stage E st True force f w =
        (w\<lparr>trace := trace w @ EvLogRunning (is_callback st) (addressing st) # map EvDisplay cs\<rparr>,
         Inr ())"
proof -
  obtain cs where cs: "enforce_cmd_list (cmd st) = Inr cs"
    using enforce_cmd_list_truthy [OF assms] by blast
  have "run_stage E st True force f w = cmd_run E st True f w"
    by (simp add: run_stage_def)
  then show ?thesis using cs cmd_run_dry [OF cs] by simp
qed

theorem dry_run_only_displays_witness:
  "cmd_truthy (cmd example_stage)
   \<and> run_stage example_env example_stage True False None example_world
       = (example_world\<lparr>trace := [EvLogRunning False ''train'', EvDisplay ''echo A'',
                                   EvDisplay ''exit 3'', EvDisplay ''echo B'']\<rparr>, Inr ())"
proof -
  have h: "cmd_truthy (cmd example_stage)" by (simp add: ex_defs)
  show ?thesis
    using h dry_run_only_displays [OF h, of example_env False None example_world]
    by (simp add: ex_defs)
qed

text \<open>
  C9 as stated fails for a stage without a command: the dry run logs the stage and then
  fails the assertion of \<open>_enforce_cmd_list\<close>.
\<close>

theorem dry_run_without_command_fails:
  "run_stage example_env (example_stage\<lparr>cmd := CmdNone\<rparr>) True False None example_world
     = (example_world\<lparr>trace := [EvLogRunning False ''train'']\<rparr>, Inl AssertionError)"
  by (simp add: ex_defs run_stage_def cmd_run_def emit_def)

lemma run_stage_irrelevant: "run E st exe c f kw w = run E st' exe c f kw w"
  by (simp add: run_def)

lemma cmd_run_loop_stage_irrelevant:
  "cmd_run_loop E st dry f exe kw cs w = cmd_run_loop E st' dry f exe kw cs w"
proof (induction cs arbitrary: w)
  case Nil
  show ?case by simp
next
  case (Cons c cs)
  show ?case
    using Cons run_stage_irrelevant [of E st exe c f kw "display_command c w" st']
    by (auto simp: Let_def split: prod.splits sum.splits)
qed

lemma cmd_run_single_string:
  assumes "s \<noteq> []"
  shows "cmd_run E (st\<lparr>cmd := CmdStr s\<rparr>) dry f w = cmd_run E (st\<lparr>cmd := CmdList [s]\<rparr>) dry f w"
  using assms
    cmd_run_loop_stage_irrelevant [of E "st\<lparr>cmd := CmdStr s\<rparr>" dry f _ _ "[s]" _
      "st\<lparr>cmd := CmdList [s]\<rparr>"]
  by (simp add: cmd_run_def prepare_kwargs_def checkpoint_env_def Let_def del: cmd_run_loop.simps)

text \<open>
  C10. A command field that is a single non-empty string is run as the list of that one
  string. A command field that is absent or empty fails the assertion: \<open>cmd_run\<close>
  has then only logged the stage, and has displayed and launched nothing.
\<close>

theorem command_field_enforced:
  "(s \<noteq> [] \<longrightarrow>
      enforce_cmd_list (CmdStr s) = Inr [s]
      \<and> cmd_run E (st\<lparr>cmd := CmdStr s\<rparr>) dry f w = cmd_run E (st\<lparr>cmd := CmdList [s]\<rparr>) dry f w)
   \<and> (\<not> cmd_truthy (cmd st) \<longrightarrow>
        cmd_run E st dry f w
          = (emit (EvLogRunning (is_callback st) (addressing st)) w, Inl AssertionError))"
  using cmd_run_single_string [of s E st dry f w]
  by (simp add: cmd_run_def enforce_cmd_list_falsy)

theorem command_field_enforced_witness:
  "enforce_cmd_list (CmdStr ''exit 3'') = Inr [''exit 3'']
   \<and> cmd_run example_env (example_stage\<lparr>cmd := CmdStr ''exit 3''\<rparr>) False None example_world
       = cmd_run example_env (example_stage\<lparr>cmd := CmdList [''exit 3'']\<rparr>) False None example_world
   \<and> \<not> cmd_truthy (cmd (example_stage\<lparr>cmd := CmdList []\<rparr>))
   \<and> cmd_run example_env (example_stage\<lparr>cmd := CmdList []\<rparr>) False None example_world
       = (example_world\<lparr>trace := [EvLogRunning False ''train'']\<rparr>, Inl AssertionError)"
  using command_field_enforced [where s = "''exit 3''" and E = example_env
      and st = "example_stage\<lparr>cmd := CmdList []\<rparr>" and dry = False and f = None
      and w = example_world]
  by (simp add: ex_defs emit_def)

section \<open>C5: the commands of a stage, in order\<close>

lemma run_no_callback:
  "popen E (spawned w) (make_cmd exe c) = Launched p \<Longrightarrow>
     snd (run E st exe c None kw w) = evaluate_outcome c False (returncode p)"
  by (simp add: run_def Let_def checkpoint_monitor_def)

lemma run_spawn:
  assumes "popen E (spawned w) (make_cmd exe c) = Launched p"
  shows "spawn_cmds (trace (fst (run E st exe c f kw w))) = spawn_cmds (trace w) @ [make_cmd exe c]
    \<and> spawned (fst (run E st exe c f kw w)) = Suc (spawned w)"
proof -
  obtain evs where e:
      "trace (fst (run E st exe c f kw w)) = trace w @ EvSpawn (make_cmd exe c) kw # evs"
      "list_all wait_event evs"
      "spawned (fst (run E st exe c f kw w)) = Suc (spawned w)"
    using run_launched [OF assms, of st f kw] by blast
  have "spawn_cmds (EvSpawn (make_cmd exe c) kw # evs) = [make_cmd exe c]"
    using spawn_cmds_wait [OF e(2)] by simp
  then show ?thesis using e(1,3) by (simp add: spawn_cmds_append)
qed

lemma display_command_frame:
  "spawned (display_command c w) = spawned w"
  "spawn_cmds (trace (display_command c w)) = spawn_cmds (trace w)"
  by (simp_all add: display_command_def emit_def spawn_cmds_append)

lemma cmd_run_loop_all_zero:
  assumes "\<forall>i<length cs. popen E (spawned w + i) (make_cmd exe (cs ! i)) = Launched (P i)"
      and "\<forall>i<length cs. returncode (P i) = 0"
  shows "snd (cmd_run_loop E st False None exe kw cs w) = Inr ()
    \<and> spawn_cmds (trace (fst (cmd_run_loop E st False None exe kw cs w)))
        = spawn_cmds (trace w) @ map (make_cmd exe) cs"
  using assms
proof (induction cs arbitrary: w P)
  case Nil
  show ?case by simp
next
  case (Cons c cs)
  define w1 where "w1 = display_command c w"
  have l: "popen E (spawned w1) (make_cmd exe c) = Launched (P 0)"
    using Cons.prems(1) by (auto simp: w1_def display_command_frame)
  obtain w2 r where r: "run E st exe c None kw w1 = (w2, r)"
    by (cases "run E st exe c None kw w1")
  have z: "returncode (P 0) = 0" using Cons.prems(2) by auto
  have ok: "r = Inr ()"
    using run_no_callback [OF l, of st kw] r z by (simp add: evaluate_outcome_def)
  have s2: "spawn_cmds (trace w2) = spawn_cmds (trace w) @ [make_cmd exe c]"
      "spawned w2 = Suc (spawned w)"
    using run_spawn [OF l, of st None kw] r by (simp_all add: w1_def display_command_frame)
  have a: "\<forall>i<length cs. popen E (spawned w2 + i) (make_cmd exe (cs ! i)) = Launched ((P \<circ> Suc) i)"
    using Cons.prems(1) s2(2) by fastforce
  have b: "\<forall>i<length cs. returncode ((P \<circ> Suc) i) = 0"
    using Cons.prems(2) by auto
  have ih: "snd (cmd_run_loop E st False None exe kw cs w2) = Inr ()
      \<and> spawn_cmds (trace (fst (cmd_run_loop E st False None exe kw cs w2)))
          = spawn_cmds (trace w2) @ map (make_cmd exe) cs"
    using Cons.IH [OF a b] .
  have "cmd_run_loop E st False None exe kw (c # cs) w = cmd_run_loop E st False None exe kw cs w2"
    using r ok by (simp add: w1_def [symmetric] Let_def)
  then show ?case using ih s2(1) by simp
qed

lemma cmd_run_loop_first_failure:
  assumes "k < length cs"
      and "\<forall>i\<le>k. popen E (spawned w + i) (make_cmd exe (cs ! i)) = Launched (P i)"
      and "\<forall>i<k. returncode (P i) = 0"
      and "returncode (P k) \<noteq> 0"
  shows "snd (cmd_run_loop E st False None exe kw cs w)
        = Inl (StageCmdFailedError (cs ! k) (returncode (P k)))
    \<and> spawn_cmds (trace (fst (cmd_run_loop E st False None exe kw cs w)))
        = spawn_cmds (trace w) @ map (make_cmd exe) (take (Suc k) cs)"
  using assms
proof (induction cs arbitrary: w P k)
  case Nil
  then show ?case by simp
next
  case (Cons c cs)
  define w1 where "w1 = display_command c w"
  have l: "popen E (spawned w1) (make_cmd exe c) = Launched (P 0)"
    using Cons.prems(2) by (auto simp: w1_def display_command_frame)
  obtain w2 r where r: "run E st exe c None kw w1 = (w2, r)"
    by (cases "run E st exe c None kw w1")
  have oc: "r = evaluate_outcome c False (returncode (P 0))"
    using run_no_callback [OF l, of st kw] r by simp
  have s2: "spawn_cmds (trace w2) = spawn_cmds (trace w) @ [make_cmd exe c]"
      "spawned w2 = Suc (spawned w)"
    using run_spawn [OF l, of st None kw] r by (simp_all add: w1_def display_command_frame)
  show ?case
  proof (cases k)
    case 0
    then have "r = Inl (StageCmdFailedError c (returncode (P 0)))"
      using oc Cons.prems(4) by (simp add: evaluate_outcome_def)
    then have "cmd_run_loop E st False None exe kw (c # cs) w
        = (w2, Inl (StageCmdFailedError c (returncode (P 0))))"
      using r by (simp add: w1_def [symmetric] Let_def)
    then show ?thesis using 0 s2(1) by simp
  next
    case (Suc j)
    have z: "returncode (P 0) = 0" using Cons.prems(3) Suc by auto
    have ok: "r = Inr ()" using oc z by (simp add: evaluate_outcome_def)
    have j: "j < length cs" using Cons.prems(1) Suc by simp
    have a: "\<forall>i\<le>j. popen E (spawned w2 + i) (make_cmd exe (cs ! i)) = Launched ((P \<circ> Suc) i)"
      using Cons.prems(2) s2(2) Suc by fastforce
    have b: "\<forall>i<j. returncode ((P \<circ> Suc) i) = 0"
      using Cons.prems(3) Suc by auto
    have c: "returncode ((P \<circ> Suc) j) \<noteq> 0"
      using Cons.prems(4) Suc by simp
    have ih: "snd (cmd_run_loop E st False None exe kw cs w2)
          = Inl (StageCmdFailedError (cs ! j) (returncode ((P \<circ> Suc) j)))
        \<and> spawn_cmds (trace (fst (cmd_run_loop E st False None exe kw cs w2)))
            = spawn_cmds (trace w2) @ map (make_cmd exe) (take (Suc j) cs)"
      using Cons.IH [OF j a b c] .
    have "cmd_run_loop E st False None exe kw (c # cs) w
        = cmd_run_loop E st False None exe kw cs w2"
      using r ok by (simp add: w1_def [symmetric] Let_def)
    then show ?thesis using ih s2(1) Suc by simp
  qed
qed

lemma warn_if_fish_frame:
  "spawned (warn_if_fish E x w) = spawned w"
  "spawn_cmds (trace (warn_if_fish E x w)) = spawn_cmds (trace w)"
  by (auto simp: warn_if_fish_def emit_def spawn_cmds_append split: option.splits)

lemma run_stage_cache_miss:
  assumes "restore E st = Some RunCacheNotFoundError" and "enforce_cmd_list (cmd st) = Inr cs"
  shows "\<exists>w'. run_stage E st False False None w
        = cmd_run_loop E st False None (get_executable E) (prepare_kwargs E st None) cs w'
      \<and> spawned w' = spawned w \<and> spawn_cmds (trace w') = spawn_cmds (trace w)"
proof -
  define w' where "w' = warn_if_fish E (get_executable E)
      (emit (EvLogRunning (is_callback st) (addressing st)) (emit EvRestore w))"
  have "run_stage E st False False None w
      = cmd_run_loop E st False None (get_executable E) (prepare_kwargs E st None) cs w'"
    using assms by (simp add: run_stage_def cmd_run_def Let_def w'_def)
  moreover have "spawned w' = spawned w"
    by (simp add: w'_def warn_if_fish_frame emit_frame)
  moreover have "spawn_cmds (trace w') = spawn_cmds (trace w)"
    by (simp add: w'_def warn_if_fish_frame trace_emit spawn_cmds_append)
  ultimately show ?thesis by blast
qed

text \<open>
  C5. A stage with a non-empty command list \<open>cs\<close> is run after a cache miss, and the
  i-th process launched behaves as \<open>P i\<close>. The processes launched are those of the
  commands in their declared order, one per command, composed by \<open>_make_cmd\<close>. When
  every command exits with code 0, all of them are run and \<open>run_stage\<close> returns. When
  the command of index \<open>k\<close> is the first to exit with a non-zero code, the commands
  after it are not run, and the exception raised is \<open>StageCmdFailedError\<close> with that
  command string and that code.
\<close>

theorem commands_in_order_until_failure:
  assumes "restore E st = Some RunCacheNotFoundError"
      and "enforce_cmd_list (cmd st) = Inr cs"
      and "\<forall>i<length cs. popen E (spawned w + i) (make_cmd (get_executable E) (cs ! i))
             = Launched (P i)"
  shows "((\<forall>i<length cs. returncode (P i) = 0) \<longrightarrow>
            snd (run_stage E st False False None w) = Inr ()
            \<and> spawn_cmds (trace (fst (run_stage E st False False None w)))
                = spawn_cmds (trace w) @ map (make_cmd (get_executable E)) cs)
    \<and> (\<forall>k<length cs. (\<forall>i<k. returncode (P i) = 0) \<and> returncode (P k) \<noteq> 0 \<longrightarrow>
            snd (run_stage E st False False None w)
              = Inl (StageCmdFailedError (cs ! k) (returncode (P k)))
            \<and> spawn_cmds (trace (fst (run_stage E st False False None w)))
                = spawn_cmds (trace w) @ map (make_cmd (get_executable E)) (take (Suc k) cs))"
proof -
  obtain w' where w': "run_stage E st False False None w
        = cmd_run_loop E st False None (get_executable E) (prepare_kwargs E st None) cs w'"
      "spawned w' = spawned w" "spawn_cmds (trace w') = spawn_cmds (trace w)"
    using run_stage_cache_miss [OF assms(1,2)] by blast
  have l: "\<forall>i<length cs. popen E (spawned w' + i) (make_cmd (get_executable E) (cs ! i))
      = Launched (P i)"
    using assms(3) w'(2) by simp
  show ?thesis
  proof (intro conjI allI impI)
    assume z: "\<forall>i<length cs. returncode (P i) = 0"
    show "snd (run_stage E st False False None w) = Inr ()"
      using cmd_run_loop_all_zero [OF l z] w'(1) by simp
    show "spawn_cmds (trace (fst (run_stage E st False False None w)))
        = spawn_cmds (trace w) @ map (make_cmd (get_executable E)) cs"
      using cmd_run_loop_all_zero [OF l z] w'(1,3) by simp
  next
    fix k
    assume k: "k < length cs"
      and f: "(\<forall>i<k. returncode (P i) = 0) \<and> returncode (P k) \<noteq> 0"
    have lk: "\<forall>i\<le>k. popen E (spawned w' + i) (make_cmd (get_executable E) (cs ! i))
        = Launched (P i)"
      using l k by simp
    have r: "snd (cmd_run_loop E st False None (get_executable E) (prepare_kwargs E st None) cs w')
          = Inl (StageCmdFailedError (cs ! k) (returncode (P k)))
        \<and> spawn_cmds (trace (fst (cmd_run_loop E st False None (get_executable E)
              (prepare_kwargs E st None) cs w')))
          = spawn_cmds (trace w') @ map (make_cmd (get_executable E)) (take (Suc k) cs)"
      using cmd_run_loop_first_failure [OF k lk] f by blast
    show "snd (run_stage E st False False None w)
        = Inl (StageCmdFailedError (cs ! k) (returncode (P k)))"
      using r w'(1) by simp
    show "spawn_cmds (trace (fst (run_stage E st False False None w)))
        = spawn_cmds (trace w) @ map (make_cmd (get_executable E)) (take (Suc k) cs)"
      using r w'(1,3) by simp
  qed
qed

theorem commands_in_order_until_failure_witness:
  "restore example_env example_stage = Some RunCacheNotFoundError
   \<and> enforce_cmd_list (cmd example_stage) = Inr [''echo A'', ''exit 3'', ''echo B'']
   \<and> returncode (exiting_proc 0) = 0 \<and> returncode (exiting_proc 3) \<noteq> 0
   \<and> snd (run_stage example_env example_stage False False None example_world)
       = Inl (StageCmdFailedError ''exit 3'' 3)
   \<and> spawn_cmds (trace (fst (run_stage example_env example_stage False False None example_world)))
       = [Argv [''/bin/bash'', ''--noprofile'', ''--norc'', ''-c'', ''echo A''],
          Argv [''/bin/bash'', ''--noprofile'', ''--norc'', ''-c'', ''exit 3'']]"
proof -
  have h1: "restore example_env example_stage = Some RunCacheNotFoundError"
    by (simp add: ex_defs)
  have h2: "enforce_cmd_list (cmd example_stage) = Inr [''echo A'', ''exit 3'', ''echo B'']"
    by (simp add: ex_defs)
  have h3: "\<forall>i<length [''echo A'', ''exit 3'', ''echo B''].
      popen example_env (spawned example_world + i)
        (make_cmd (get_executable example_env) ([''echo A'', ''exit 3'', ''echo B''] ! i))
      = Launched (exiting_proc (if i = 1 then 3 else 0))"
    by (simp add: ex_defs)
  have t: "\<forall>k<length [''echo A'', ''exit 3'', ''echo B''].
      (\<forall>i<k. returncode (exiting_proc (if i = 1 then 3 else 0)) = 0)
        \<and> returncode (exiting_proc (if k = 1 then 3 else 0)) \<noteq> 0 \<longrightarrow>
      snd (run_stage example_env example_stage False False None example_world)
        = Inl (StageCmdFailedError ([''echo A'', ''exit 3'', ''echo B''] ! k)
            (returncode (exiting_proc (if k = 1 then 3 else 0))))
      \<and> spawn_cmds (trace (fst (run_stage example_env example_stage False False None example_world)))
        = spawn_cmds (trace example_world) @ map (make_cmd (get_executable example_env))
            (take (Suc k) [''echo A'', ''exit 3'', ''echo B''])"
    using commands_in_order_until_failure [OF h1 h2 h3] by blast
  have p: "(\<forall>i<(1::nat). returncode (exiting_proc (if i = 1 then 3 else 0)) = 0)
      \<and> returncode (exiting_proc (if (1::nat) = 1 then 3 else 0)) \<noteq> 0"
    by (simp add: exiting_proc_def)
  have "snd (run_stage example_env example_stage False False None example_world)
        = Inl (StageCmdFailedError ([''echo A'', ''exit 3'', ''echo B''] ! 1)
            (returncode (exiting_proc (if (1::nat) = 1 then 3 else 0))))
      \<and> spawn_cmds (trace (fst (run_stage example_env example_stage False False None example_world)))
        = spawn_cmds (trace example_world) @ map (make_cmd (get_executable example_env))
            (take (Suc 1) [''echo A'', ''exit 3'', ''echo B''])"
  proof -
    have n: "(1::nat) < length [''echo A'', ''exit 3'', ''echo B'']" by simp
    show ?thesis by (rule mp [OF mp [OF t [THEN spec, of 1] n] p])
  qed
  then show ?thesis
    using h1 h2
    by (simp add: ex_defs get_executable_def lower_def basename_def lower_char_def opts_def)
qed

section \<open>C6: the disposition of SIGINT\<close>

text \<open>
  What \<open>_run\<close> leaves as the disposition of SIGINT. Outside the main thread, and when
  the launch raises, it is untouched. In the main thread it is set to \<open>SIG_IGN\<close> after
  the launch and set back in the \<open>finally\<close> clause only when the previous handler is
  truthy.
\<close>

lemma run_sigint_disposition:
  "sigint (fst (run E st exe c f kw w)) =
     (case popen E (spawned w) (make_cmd exe c) of
        LaunchRaises e \<Rightarrow> sigint w
      | Launched p \<Rightarrow>
          if main_thread E
          then (if handler_truthy (Some (sigint w)) then sigint w else SIG_IGN)
          else sigint w)"
proof (cases "popen E (spawned w) (make_cmd exe c)")
  case (LaunchRaises e)
  then show ?thesis by (simp add: run_def emit_frame)
next
  case (Launched p)
  define w1 where "w1 = emit (EvSpawn (make_cmd exe c) kw) (w\<lparr>spawned := Suc (spawned w)\<rparr>)"
  have s1: "sigint w1 = sigint w" by (simp add: w1_def emit_frame)
  show ?thesis
  proof (cases "main_thread E")
    case True
    have "sigint (fst (checkpoint_monitor E f p ((emit (EvSignal SIG_IGN) w1)\<lparr>sigint := SIG_IGN\<rparr>)))
        = SIG_IGN"
      using checkpoint_monitor_frame [of E f p "(emit (EvSignal SIG_IGN) w1)\<lparr>sigint := SIG_IGN\<rparr>"]
      by simp
    then show ?thesis
      using Launched True s1
      by (simp add: run_def Let_def split_beta w1_def [symmetric] emit_frame)
  next
    case False
    have "sigint (fst (checkpoint_monitor E f p w1)) = sigint w"
      using checkpoint_monitor_frame [of E f p w1] s1 by simp
    then show ?thesis
      using Launched False
      by (simp add: run_def Let_def split_beta w1_def [symmetric])
  qed
qed

text \<open>
  C6, at the failing input: the main thread, SIGINT at \<open>SIG_DFL\<close> before the call, a
  command that exits with code 0. \<open>signal.signal\<close> returns \<open>SIG_DFL\<close>, which is
  falsy, so the test \<open>if old_handler\<close> of the \<open>finally\<close> clause skips the
  restoration and SIGINT is left ignored after \<open>_run\<close> has returned.
\<close>

theorem sigint_default_not_restored:
  "run example_env example_stage (Some ''/bin/sh'') ''echo A'' None
      (prepare_kwargs example_env example_stage None) (example_world\<lparr>sigint := SIG_DFL\<rparr>)
     = (\<lparr>sigint = SIG_IGN, marker = False, spawned = 1,
         trace = [EvSpawn (Argv [''/bin/sh'', ''-c'', ''echo A''])
                    \<lparr>cwd = ''.'', env_update = [], close_fds = True, shell = False\<rparr>,
                  EvSignal SIG_IGN, EvCommunicate]\<rparr>, Inr ())"
  by (simp add: ex_defs run_defs prepare_kwargs_def)

section \<open>C8: the argument vector\<close>

text \<open>
  C8, as amended. Off Windows the executable is the value of \<open>SHELL\<close>, or
  \<open>/bin/sh\<close> when that is unset or empty, and the argument vector is the executable,
  then \<open>--no-rcs\<close> when the lower-cased basename of the executable is \<open>zsh\<close>, or
  \<open>--noprofile --norc\<close> when it is \<open>bash\<close>, or nothing otherwise, then \<open>-c\<close> and
  the command string as one argument; the process is launched without \<open>shell=True\<close>.
  On Windows no executable is resolved and the command string goes unchanged to the
  platform's shell (\<open>shell=True\<close>).
\<close>

theorem command_composition:
  "(os_name E \<noteq> ''nt'' \<longrightarrow>
      (let x = (case SHELL E of None \<Rightarrow> ''/bin/sh'' | Some s \<Rightarrow> if s = [] then ''/bin/sh'' else s)
       in get_executable E = Some x
          \<and> make_cmd (get_executable E) c
              = Argv (x # (if lower (basename x) = ''zsh'' then [''--no-rcs'']
                           else if lower (basename x) = ''bash'' then [''--noprofile'', ''--norc'']
                           else []) @ [''-c'', c])
          \<and> \<not> shell (prepare_kwargs E st f)))
   \<and> (os_name E = ''nt'' \<longrightarrow>
        get_executable E = None
        \<and> make_cmd (get_executable E) c = ShellString c
        \<and> shell (prepare_kwargs E st f))"
  by (simp add: get_executable_def prepare_kwargs_def opts_def Let_def)

theorem command_composition_witness:
  "os_name example_env \<noteq> ''nt''
   \<and> make_cmd (get_executable example_env) ''echo A''
       = Argv [''/bin/bash'', ''--noprofile'', ''--norc'', ''-c'', ''echo A'']
   \<and> make_cmd (get_executable (example_env\<lparr>SHELL := None\<rparr>)) ''echo A''
       = Argv [''/bin/sh'', ''-c'', ''echo A'']
   \<and> os_name (example_env\<lparr>os_name := ''nt''\<rparr>) = ''nt''
   \<and> make_cmd (get_executable (example_env\<lparr>os_name := ''nt''\<rparr>)) ''echo A'' = ShellString ''echo A''
   \<and> shell (prepare_kwargs (example_env\<lparr>os_name := ''nt''\<rparr>) example_stage None)"
  using command_composition [of example_env "''echo A''" example_stage None]
    command_composition [of "example_env\<lparr>SHELL := None\<rparr>" "''echo A''" example_stage None]
    command_composition [of "example_env\<lparr>os_name := ''nt''\<rparr>" "''echo A''" example_stage None]
  by (simp add: ex_defs lower_def basename_def lower_char_def Let_def get_executable_def
      prepare_kwargs_def opts_def)

text \<open>
  C8 as stated fails: the basename of \<open>/bin/ZSH\<close> is \<open>ZSH\<close>, which is neither
  \<open>zsh\<close> nor \<open>bash\<close>, and the argument vector has the flag \<open>--no-rcs\<close>, since
  \<open>_make_cmd\<close> lower-cases the basename before the lookup.
\<close>

theorem upper_case_shell_gets_flags:
  "basename ''/bin/ZSH'' = ''ZSH''
   \<and> make_cmd (get_executable (example_env\<lparr>SHELL := Some ''/bin/ZSH''\<rparr>)) ''echo A''
       = Argv [''/bin/ZSH'', ''--no-rcs'', ''-c'', ''echo A'']"
  by (simp add: ex_defs get_executable_def lower_def basename_def lower_char_def opts_def)

end
